theory Spec2Isabelle
  imports Main
begin

section \<open>The logging interface of fsremap (log.hh)\<close>

subsection \<open>Levels and formats\<close>

text \<open>
  \<^verbatim>\<open>enum ft_log_level { FC_LEVEL_NOT_SET, FC_DUMP, FC_TRACE, FC_DEBUG, FC_INFO,
                      FC_NOTICE, FC_WARN, FC_ERROR, FC_FATAL };\<close>
  The enumerators carry the values 0 to 8 in the order of declaration, and the
  comparison \<^verbatim>\<open>level >= get_effective_level()\<close> of the header compares these values.
\<close>

datatype ft_log_level =
    FC_LEVEL_NOT_SET | FC_DUMP | FC_TRACE | FC_DEBUG | FC_INFO
  | FC_NOTICE | FC_WARN | FC_ERROR | FC_FATAL

fun level_num :: "ft_log_level \<Rightarrow> nat" where
  "level_num FC_LEVEL_NOT_SET = 0"
| "level_num FC_DUMP = 1"
| "level_num FC_TRACE = 2"
| "level_num FC_DEBUG = 3"
| "level_num FC_INFO = 4"
| "level_num FC_NOTICE = 5"
| "level_num FC_WARN = 6"
| "level_num FC_ERROR = 7"
| "level_num FC_FATAL = 8"

lemma level_num_inject: "level_num a = level_num b \<Longrightarrow> a = b"
  by (cases a; cases b; simp)

instantiation ft_log_level :: linorder
begin

definition less_eq_ft_log_level :: "ft_log_level \<Rightarrow> ft_log_level \<Rightarrow> bool" where
  "less_eq_ft_log_level a b = (level_num a \<le> level_num b)"

definition less_ft_log_level :: "ft_log_level \<Rightarrow> ft_log_level \<Rightarrow> bool" where
  "less_ft_log_level a b = (level_num a < level_num b)"

instance
proof
  fix x y z :: ft_log_level
  show "(x < y) = (x \<le> y \<and> \<not> y \<le> x)"
    by (simp add: less_eq_ft_log_level_def less_ft_log_level_def less_le_not_le)
  show "x \<le> x"
    by (simp add: less_eq_ft_log_level_def)
  show "x \<le> y \<Longrightarrow> y \<le> z \<Longrightarrow> x \<le> z"
    by (simp add: less_eq_ft_log_level_def)
  show "x \<le> y \<Longrightarrow> y \<le> x \<Longrightarrow> x = y"
    by (simp add: less_eq_ft_log_level_def level_num_inject)
  show "x \<le> y \<or> y \<le> x"
    by (simp add: less_eq_ft_log_level_def linear)
qed

end

text \<open>
  \<^verbatim>\<open>enum ft_log_fmt { FC_FMT_MSG, FC_FMT_LEVEL_MSG, FC_FMT_DATETIME_LEVEL_MSG,
                    FC_FMT_DATETIME_LEVEL_CALLER_MSG };\<close>
\<close>

datatype ft_log_fmt =
    FC_FMT_MSG | FC_FMT_LEVEL_MSG | FC_FMT_DATETIME_LEVEL_MSG
  | FC_FMT_DATETIME_LEVEL_CALLER_MSG

subsection \<open>Events and appenders\<close>

text \<open>
  \<^verbatim>\<open>struct ft_log_event\<close>: the C strings are strings, the three \<^verbatim>\<open>int\<close> fields are
  integers (no arithmetic is done on them here) and the \<^verbatim>\<open>va_list\<close> is the list of the
  arguments already rendered. The field names carry the prefix \<open>ev_\<close>.
\<close>

record ft_log_event =
  ev_str_now :: string
  ev_file :: string
  ev_file_suffix :: string
  ev_function :: string
  ev_fmt :: string
  ev_file_len :: int
  ev_line :: int
  ev_err :: int
  ev_level :: ft_log_level
  vargs :: "string list"

text \<open>
  \<^verbatim>\<open>class ft_log_appender\<close>: the \<^verbatim>\<open>FILE *\<close> is the number of the stream it points to.
  The three inline setters are the only member functions the header defines.
\<close>

record ft_log_appender =
  stream :: nat
  format :: ft_log_fmt
  min_level :: ft_log_level
  max_level :: ft_log_level

definition set_format :: "ft_log_appender \<Rightarrow> ft_log_fmt \<Rightarrow> ft_log_appender" where
  "set_format this f = this\<lparr>format := f\<rparr>"

definition set_min_level :: "ft_log_appender \<Rightarrow> ft_log_level \<Rightarrow> ft_log_appender" where
  "set_min_level this l = this\<lparr>min_level := l\<rparr>"

definition set_max_level :: "ft_log_appender \<Rightarrow> ft_log_level \<Rightarrow> ft_log_appender" where
  "set_max_level this l = this\<lparr>max_level := l\<rparr>"

subsection \<open>Loggers\<close>

text \<open>
  \<^verbatim>\<open>class ft_log\<close> has the fields \<^verbatim>\<open>name\<close>, \<^verbatim>\<open>parent\<close>, \<^verbatim>\<open>appenders\<close> and \<^verbatim>\<open>level\<close>.
  The \<^verbatim>\<open>parent\<close> pointer is the parent logger as it stands when the child is looked
  at, and \<open>None\<close> is the null pointer.
\<close>

datatype ft_log =
  Logger (name: string) (parent: "ft_log option")
         (appenders: "ft_log_appender list") (level: ft_log_level)

text \<open>\<^verbatim>\<open>const ft_string & get_name() const { return * name; }\<close>\<close>

definition get_name :: "ft_log \<Rightarrow> string" where
  "get_name this = name this"

text \<open>\<^verbatim>\<open>ft_log_level get_level() const { return level; }\<close>\<close>

definition get_level :: "ft_log \<Rightarrow> ft_log_level" where
  "get_level this = level this"

text \<open>\<^verbatim>\<open>void set_level(ft_log_level level) { this->level = level; }\<close>\<close>

definition set_level :: "ft_log \<Rightarrow> ft_log_level \<Rightarrow> ft_log" where
  "set_level this l = Logger (name this) (parent this) (appenders this) l"

text \<open>
  Modelled from the spec: \<^verbatim>\<open>ft_log::get_effective_level\<close> is declared in log.hh and
  defined in log.cc, which is not among the sources. Its declaration says:
  ``return the effective level: if level is set return it, otherwise return parent
  effective level''. For a logger without a parent the sentence names no other level,
  and the model returns the logger's own \<^verbatim>\<open>level\<close> field there.
\<close>

fun get_effective_level :: "ft_log \<Rightarrow> ft_log_level" where
  "get_effective_level (Logger n p as l) =
     (if l \<noteq> FC_LEVEL_NOT_SET then l
      else (case p of None \<Rightarrow> l | Some q \<Rightarrow> get_effective_level q))"

text \<open>
  \<^verbatim>\<open>bool is_enabled(ft_log_level level) const { return level >= get_effective_level(); }\<close>
\<close>

definition is_enabled :: "ft_log \<Rightarrow> ft_log_level \<Rightarrow> bool" where
  "is_enabled this l = (l \<ge> get_effective_level this)"

text \<open>
  Modelled from the spec: \<^verbatim>\<open>ft_log::log\<close> and \<^verbatim>\<open>ft_log::append\<close> are declared in
  log.hh and defined in log.cc, which is not among the sources. The declarations say:
  \<^verbatim>\<open>log\<close> is ``log a message (unless its level is suppressed)'' and \<^verbatim>\<open>append\<close> is
  ``log a message (skip level check)''. The state passed along is the list of the
  events handed to \<^verbatim>\<open>append\<close>, oldest first; what the appenders then write to their
  streams is not part of this model.
\<close>

definition log :: "ft_log \<Rightarrow> ft_log_event \<Rightarrow> ft_log_event list \<Rightarrow> ft_log_event list" where
  "log this event handed =
     (if is_enabled this (ev_level event) then handed @ [event] else handed)"

section \<open>Properties of the logger\<close>

subsection \<open>Helper facts\<close>

lemma is_enabled_iff:
  "is_enabled this l \<longleftrightarrow> level_num (get_effective_level this) \<le> level_num l"
  by (simp add: is_enabled_def less_eq_ft_log_level_def)

lemma level_less_iff: "a < b \<longleftrightarrow> level_num a < level_num b"
  by (simp add: less_ft_log_level_def)

lemma level_chain:
  "FC_LEVEL_NOT_SET < FC_DUMP \<and> FC_DUMP < FC_TRACE \<and> FC_TRACE < FC_DEBUG \<and>
   FC_DEBUG < FC_INFO \<and> FC_INFO < FC_NOTICE \<and> FC_NOTICE < FC_WARN \<and>
   FC_WARN < FC_ERROR \<and> FC_ERROR < FC_FATAL"
  by (simp add: level_less_iff)

subsection \<open>Severities are ordered and enablement is monotone\<close>

text \<open>
  Claim C6. The levels are totally ordered by the values of their enumerators: any two
  are comparable, two levels that are each at most the other are the same level, and
  the order runs \<^verbatim>\<open>FC_TRACE < FC_DEBUG < FC_INFO < FC_NOTICE < FC_WARN < FC_ERROR <
  FC_FATAL\<close> (below \<^verbatim>\<open>FC_TRACE\<close> the enumeration also has \<^verbatim>\<open>FC_DUMP\<close> and the marker
  \<^verbatim>\<open>FC_LEVEL_NOT_SET\<close>). Enablement is monotone in this order: for every logger, when
  a level is enabled then every strictly more severe level is enabled too. The proof
  uses the body of \<^verbatim>\<open>is_enabled\<close> only, so it holds whatever
  \<^verbatim>\<open>get_effective_level\<close> returns.
\<close>

theorem is_enabled_monotone:
  "(a \<le> b \<or> b \<le> a) \<and>
   (a \<le> b \<and> b \<le> a \<longrightarrow> a = b) \<and>
   (FC_TRACE < FC_DEBUG \<and> FC_DEBUG < FC_INFO \<and> FC_INFO < FC_NOTICE \<and>
    FC_NOTICE < FC_WARN \<and> FC_WARN < FC_ERROR \<and> FC_ERROR < FC_FATAL) \<and>
   (is_enabled this a \<and> a < b \<longrightarrow> is_enabled this b)"
proof -
  have total: "a \<le> b \<or> b \<le> a"
    by (rule linear)
  have antisym: "a \<le> b \<and> b \<le> a \<longrightarrow> a = b"
    by auto
  have chain: "FC_TRACE < FC_DEBUG \<and> FC_DEBUG < FC_INFO \<and> FC_INFO < FC_NOTICE \<and>
    FC_NOTICE < FC_WARN \<and> FC_WARN < FC_ERROR \<and> FC_ERROR < FC_FATAL"
    using level_chain by simp
  have mono: "is_enabled this a \<and> a < b \<longrightarrow> is_enabled this b"
  proof
    assume h: "is_enabled this a \<and> a < b"
    then have "get_effective_level this \<le> a" and "a < b"
      by (simp_all add: is_enabled_def)
    then have "get_effective_level this \<le> b"
      by simp
    then show "is_enabled this b"
      by (simp add: is_enabled_def)
  qed
  from total antisym chain mono show ?thesis
    by blast
qed

theorem is_enabled_monotone_witness:
  "is_enabled (Logger ''io'' None [] FC_INFO) FC_WARN \<and> FC_WARN < FC_ERROR \<and>
   is_enabled (Logger ''io'' None [] FC_INFO) FC_ERROR"
proof -
  have e: "is_enabled (Logger ''io'' None [] FC_INFO) FC_WARN"
    by (simp add: is_enabled_iff)
  have lt: "FC_WARN < FC_ERROR"
    by (simp add: level_less_iff)
  from is_enabled_monotone [of FC_WARN FC_ERROR "Logger ''io'' None [] FC_INFO"] e lt
  have "is_enabled (Logger ''io'' None [] FC_INFO) FC_ERROR"
    by blast
  with e lt show ?thesis
    by simp
qed

subsection \<open>The effective level\<close>

text \<open>
  Claim C10. For every logger the effective level is its own level when that level is
  set (is not \<^verbatim>\<open>FC_LEVEL_NOT_SET\<close>) and otherwise, for a logger with a parent, the
  parent's effective level; a level is enabled exactly when it is at least the
  effective level, and \<^verbatim>\<open>log\<close> hands an event on exactly when its level is at least
  the effective level.
\<close>

theorem get_effective_level_inherits:
  "(level this \<noteq> FC_LEVEL_NOT_SET \<longrightarrow> get_effective_level this = level this) \<and>
   (level this = FC_LEVEL_NOT_SET \<and> parent this = Some p \<longrightarrow>
      get_effective_level this = get_effective_level p) \<and>
   (is_enabled this l \<longleftrightarrow> get_effective_level this \<le> l) \<and>
   (log this event handed = handed @ [event] \<longleftrightarrow>
      get_effective_level this \<le> ev_level event) \<and>
   (log this event handed = handed \<longleftrightarrow>
      \<not> get_effective_level this \<le> ev_level event)"
proof -
  have own: "level this \<noteq> FC_LEVEL_NOT_SET \<longrightarrow> get_effective_level this = level this"
    by (cases this) simp
  have inherited: "level this = FC_LEVEL_NOT_SET \<and> parent this = Some p \<longrightarrow>
      get_effective_level this = get_effective_level p"
    by (cases this) simp
  have enabled: "is_enabled this l \<longleftrightarrow> get_effective_level this \<le> l"
    by (simp add: is_enabled_def)
  have logged: "log this event handed = handed @ [event] \<longleftrightarrow>
      get_effective_level this \<le> ev_level event"
    by (simp add: log_def is_enabled_def)
  have suppressed: "log this event handed = handed \<longleftrightarrow>
      \<not> get_effective_level this \<le> ev_level event"
    by (simp add: log_def is_enabled_def)
  from own inherited enabled logged suppressed show ?thesis
    by blast
qed

theorem get_effective_level_inherits_witness:
  "level (Logger [] None [] FC_INFO) \<noteq> FC_LEVEL_NOT_SET \<and>
   get_effective_level (Logger [] None [] FC_INFO) = FC_INFO \<and>
   level (Logger ''io'' (Some (Logger [] None [] FC_INFO)) [] FC_LEVEL_NOT_SET)
     = FC_LEVEL_NOT_SET \<and>
   parent (Logger ''io'' (Some (Logger [] None [] FC_INFO)) [] FC_LEVEL_NOT_SET)
     = Some (Logger [] None [] FC_INFO) \<and>
   get_effective_level (Logger ''io'' (Some (Logger [] None [] FC_INFO)) [] FC_LEVEL_NOT_SET)
     = FC_INFO \<and>
   is_enabled (Logger ''io'' (Some (Logger [] None [] FC_INFO)) [] FC_LEVEL_NOT_SET) FC_WARN \<and>
   \<not> is_enabled (Logger ''io'' (Some (Logger [] None [] FC_INFO)) [] FC_LEVEL_NOT_SET) FC_DEBUG"
proof -
  let ?root = "Logger [] None [] FC_INFO"
  let ?io = "Logger ''io'' (Some ?root) [] FC_LEVEL_NOT_SET"
  have set_root: "level ?root \<noteq> FC_LEVEL_NOT_SET"
    by simp
  have unset_io: "level ?io = FC_LEVEL_NOT_SET"
    by simp
  have parent_io: "parent ?io = Some ?root"
    by simp
  have info_warn: "FC_INFO \<le> FC_WARN"
    by (simp add: less_eq_ft_log_level_def)
  have info_debug: "\<not> FC_INFO \<le> FC_DEBUG"
    by (simp add: less_eq_ft_log_level_def)
  from get_effective_level_inherits [of ?root] set_root
  have eff_root: "get_effective_level ?root = FC_INFO"
    by simp
  from get_effective_level_inherits [of ?io ?root] unset_io parent_io
  have "get_effective_level ?io = get_effective_level ?root"
    by blast
  with eff_root have eff_io: "get_effective_level ?io = FC_INFO"
    by simp
  from get_effective_level_inherits [of ?io _ FC_WARN] eff_io info_warn
  have warn: "is_enabled ?io FC_WARN"
    by simp
  from get_effective_level_inherits [of ?io _ FC_DEBUG] eff_io info_debug
  have debug: "\<not> is_enabled ?io FC_DEBUG"
    by simp
  from set_root eff_root unset_io parent_io eff_io warn debug show ?thesis
    by blast
qed

end
